theory Spec2Isabelle
  imports Complex_Main "HOL-Library.AList" "HOL-Library.Multiset"
begin

section \<open>Data model\<close>

text \<open>
  The program is the second version of package \<open>p2\<close> (the one that declares
  \<open>MAX_LEVELS_PER_PAIR\<close> and \<open>MAX_PATH_DEPTH\<close>). Its \<open>float64\<close> values are modelled
  by \<^typ>\<open>real\<close>: arithmetic is exact, and rounding, overflow and the non-finite
  values that arithmetic could produce are not part of the model. The two non-finite
  literals the code writes down itself, \<open>math.Inf(1)\<close> and \<open>math.NaN()\<close>, are modelled
  where they occur. Printing is omitted.
\<close>

record Level =
  Price :: real
  Amount :: real

record TradingPair =
  Base :: string
  Quote :: string
  AskOrders :: "Level list"
  BidOrders :: "Level list"

record VirtualLevel =
  Price :: real
  Amount :: real
  Route :: "string list"
  LevelPrices :: "real list"

record VirtualTradingPair =
  Base :: string
  Quote :: string
  AskOrders :: "VirtualLevel list"
  BidOrders :: "VirtualLevel list"

record PriceVolumeCombo =
  prices :: "real list"
  depth :: real

record RouteCandidate =
  prices :: "real list"
  levelIndices :: "nat list"
  finalPrice :: real
  maxVolume :: real

text \<open>
  \<open>Graph\<close> is \<open>map[string]map[string]TradingPair\<close>. Both maps are association lists
  with one entry per key, in the order in which the keys were first stored; Go leaves
  the order in which a map is iterated open, so the path enumeration below takes
  that order as a parameter.
\<close>

type_synonym Graph = "(string \<times> (string \<times> TradingPair) list) list"

definition MAX_LEVELS_PER_PAIR :: nat where
  "MAX_LEVELS_PER_PAIR = 5"

definition MAX_PATH_DEPTH :: int where
  "MAX_PATH_DEPTH = 5"

section \<open>Graph builder\<close>

text \<open>\<open>graph[x]\<close>: a missing key reads as the nil map, which has no entries.\<close>

definition adjacency :: "Graph \<Rightarrow> string \<Rightarrow> (string \<times> TradingPair) list" where
  "adjacency graph x = (case map_of graph x of None \<Rightarrow> [] | Some m \<Rightarrow> m)"

text \<open>\<open>pair, exists := graph[x][y]\<close>: \<open>None\<close> when \<open>exists\<close> is false.\<close>

definition edge :: "Graph \<Rightarrow> string \<Rightarrow> string \<Rightarrow> TradingPair option" where
  "edge graph x y = map_of (adjacency graph x) y"

text \<open>\<open>if graph[x] == nil { graph[x] = make(map[string]TradingPair) }\<close>\<close>

definition makeEntry :: "Graph \<Rightarrow> string \<Rightarrow> Graph" where
  "makeEntry graph x = (if map_of graph x = None then AList.update x [] graph else graph)"

text \<open>\<open>graph[x][y] = pair\<close>\<close>

definition storeEdge :: "Graph \<Rightarrow> string \<Rightarrow> string \<Rightarrow> TradingPair \<Rightarrow> Graph" where
  "storeEdge graph x y pair = AList.update x (AList.update y pair (adjacency graph x)) graph"

fun invertOrders :: "Level list \<Rightarrow> Level list" where
  "invertOrders [] = []"
| "invertOrders (level # levels) =
     (if Level.Price level > 0
      then \<lparr>Level.Price = 1 / Level.Price level,
            Level.Amount = Level.Amount level * Level.Price level\<rparr> # invertOrders levels
      else invertOrders levels)"

text \<open>One iteration of the loop of \<open>buildGraph\<close>.\<close>

definition storePair :: "Graph \<Rightarrow> TradingPair \<Rightarrow> Graph" where
  "storePair graph pair =
     (let g1 = makeEntry graph (TradingPair.Base pair);
          g2 = makeEntry g1 (TradingPair.Quote pair);
          limitedAskOrders =
            take (min (length (TradingPair.AskOrders pair)) MAX_LEVELS_PER_PAIR)
              (TradingPair.AskOrders pair);
          limitedBidOrders =
            take (min (length (TradingPair.BidOrders pair)) MAX_LEVELS_PER_PAIR)
              (TradingPair.BidOrders pair);
          g3 = storeEdge g2 (TradingPair.Base pair) (TradingPair.Quote pair)
                 \<lparr>TradingPair.Base = TradingPair.Base pair,
                  TradingPair.Quote = TradingPair.Quote pair,
                  TradingPair.AskOrders = limitedAskOrders,
                  TradingPair.BidOrders = limitedBidOrders\<rparr>;
          reversePair =
                 \<lparr>TradingPair.Base = TradingPair.Quote pair,
                  TradingPair.Quote = TradingPair.Base pair,
                  TradingPair.AskOrders = invertOrders limitedBidOrders,
                  TradingPair.BidOrders = invertOrders limitedAskOrders\<rparr>
      in storeEdge g3 (TradingPair.Quote pair) (TradingPair.Base pair) reversePair)"

definition buildGraph :: "TradingPair list \<Rightarrow> Graph" where
  "buildGraph pairs = foldl storePair [] pairs"

text \<open>
  The two edges one iteration stores, written out: the input pair cut to its first
  five levels on each side, and its inversion. Two pairs are on the same currencies
  when they have the same base and quote, in either order: each overwrites both
  edges of the other.
\<close>

definition cappedPair :: "TradingPair \<Rightarrow> TradingPair" where
  "cappedPair pair =
     \<lparr>TradingPair.Base = TradingPair.Base pair,
      TradingPair.Quote = TradingPair.Quote pair,
      TradingPair.AskOrders = take 5 (TradingPair.AskOrders pair),
      TradingPair.BidOrders = take 5 (TradingPair.BidOrders pair)\<rparr>"

definition invertLevel :: "Level \<Rightarrow> Level" where
  "invertLevel level =
     \<lparr>Level.Price = 1 / Level.Price level,
      Level.Amount = Level.Amount level * Level.Price level\<rparr>"

definition positiveLevels :: "Level list \<Rightarrow> Level list" where
  "positiveLevels levels = filter (\<lambda>level. Level.Price level > 0) levels"

definition invertedPair :: "TradingPair \<Rightarrow> TradingPair" where
  "invertedPair pair =
     \<lparr>TradingPair.Base = TradingPair.Quote pair,
      TradingPair.Quote = TradingPair.Base pair,
      TradingPair.AskOrders =
        map invertLevel (positiveLevels (take 5 (TradingPair.BidOrders pair))),
      TradingPair.BidOrders =
        map invertLevel (positiveLevels (take 5 (TradingPair.AskOrders pair)))\<rparr>"

definition onCurrencies :: "string \<Rightarrow> string \<Rightarrow> TradingPair \<Rightarrow> bool" where
  "onCurrencies x y q \<longleftrightarrow>
     (TradingPair.Base q = x \<and> TradingPair.Quote q = y) \<or>
     (TradingPair.Base q = y \<and> TradingPair.Quote q = x)"

definition sameCurrencies :: "TradingPair \<Rightarrow> TradingPair \<Rightarrow> bool" where
  "sameCurrencies q pair = onCurrencies (TradingPair.Base pair) (TradingPair.Quote pair) q"

section \<open>Path enumerator\<close>

text \<open>
  \<open>visited\<close> is \<open>map[string]bool\<close>, a missing key reading \<open>false\<close>; the map is shared
  by all the calls, so it is passed in and returned. \<open>order currentPath keys\<close> is the
  order in which \<open>range graph[currentToken]\<close> yields the keys of the adjacency map in
  the call that has walked \<open>currentPath\<close>. \<open>pathsLoop\<close> is the \<open>for\<close> loop of
  \<open>findPathsRecursive\<close> over the keys still to come.
\<close>

function findPathsRecursive ::
    "(string list \<Rightarrow> string list \<Rightarrow> string list) \<Rightarrow> Graph \<Rightarrow> string \<Rightarrow> string \<Rightarrow>
     (string \<Rightarrow> bool) \<Rightarrow> string list \<Rightarrow> int \<Rightarrow> string list list \<times> (string \<Rightarrow> bool)"
  and pathsLoop ::
    "(string list \<Rightarrow> string list \<Rightarrow> string list) \<Rightarrow> Graph \<Rightarrow> string list \<Rightarrow> string \<Rightarrow>
     (string \<Rightarrow> bool) \<Rightarrow> string list \<Rightarrow> int \<Rightarrow> string list list \<times> (string \<Rightarrow> bool)"
where
  "findPathsRecursive order graph currentToken targetToken visited currentPath maxDepth =
     (if int (length currentPath) > maxDepth then ([], visited)
      else if currentToken = targetToken \<and> length currentPath > 1 then ([currentPath], visited)
      else
        (case pathsLoop order graph
                (order currentPath (map fst (adjacency graph currentToken)))
                targetToken (visited(currentToken := True)) currentPath maxDepth of
           (allPaths, visited') \<Rightarrow> (allPaths, visited'(currentToken := False))))"
| "pathsLoop order graph [] targetToken visited currentPath maxDepth = ([], visited)"
| "pathsLoop order graph (nextToken # tokens) targetToken visited currentPath maxDepth =
     (if \<not> visited nextToken
      then
        (case findPathsRecursive order graph nextToken targetToken visited
                (currentPath @ [nextToken]) maxDepth of
           (pathsFromNext, visited') \<Rightarrow>
             (case pathsLoop order graph tokens targetToken visited' currentPath maxDepth of
                (allPaths, visited'') \<Rightarrow> (pathsFromNext @ allPaths, visited'')))
      else pathsLoop order graph tokens targetToken visited currentPath maxDepth)"
  by pat_completeness auto
termination
  by (relation "inv_image (less_than <*lex*> less_than)
        (\<lambda>s. case s of
           Inl (order, graph, currentToken, targetToken, visited, currentPath, maxDepth) \<Rightarrow>
             (2 * nat (maxDepth + 2 - int (length currentPath)), 0)
         | Inr (order, graph, tokens, targetToken, visited, currentPath, maxDepth) \<Rightarrow>
             (2 * nat (maxDepth + 2 - int (length currentPath)) - 1, length tokens + 1))")
     auto

declare findPathsRecursive.simps [simp del]

definition findAllPaths ::
    "(string list \<Rightarrow> string list \<Rightarrow> string list) \<Rightarrow> Graph \<Rightarrow> string \<Rightarrow> string \<Rightarrow> int \<Rightarrow>
     string list list" where
  "findAllPaths order graph start end maxDepth =
     fst (findPathsRecursive order graph start end (\<lambda>token. False) [start] maxDepth)"

section \<open>Per-path combiner and volume tracking\<close>

text \<open>
  The first loop of \<open>getAllPriceVolumeCombinations\<close>: the level list of the chosen side
  for every hop of the path, \<open>None\<close> as soon as an edge is missing (the early
  \<open>return []PriceVolumeCombo{}\<close>).
\<close>

fun collectHopLevels :: "Graph \<Rightarrow> string list \<Rightarrow> bool \<Rightarrow> Level list list option" where
  "collectHopLevels graph (fromToken # toToken # rest) isAsk =
     (case edge graph fromToken toToken of
        None \<Rightarrow> None
      | Some pair \<Rightarrow>
          (case collectHopLevels graph (toToken # rest) isAsk of
             None \<Rightarrow> None
           | Some allHopLevels \<Rightarrow>
               Some ((if isAsk then TradingPair.AskOrders pair else TradingPair.BidOrders pair)
                     # allHopLevels)))"
| "collectHopLevels graph path isAsk = Some []"

text \<open>
  \<open>maxVolume\<close> of a candidate: it starts at \<open>math.Inf(1)\<close>, modelled by \<open>None\<close>, and is
  lowered to every level volume below it. The indices are those the enumeration itself
  has produced, so every read is in range.
\<close>

definition minLevelVolume :: "Level list list \<Rightarrow> nat list \<Rightarrow> real option" where
  "minLevelVolume allHopLevels currentIndices =
     foldl (\<lambda>volume (hopIdx, levelIdx).
              let levelVolume = Level.Amount (allHopLevels ! hopIdx ! levelIdx)
              in case volume of
                   None \<Rightarrow> Some levelVolume
                 | Some m \<Rightarrow> if levelVolume < m then Some levelVolume else Some m)
       None (enumerate 0 currentIndices)"

function generateAllRouteCandidates ::
    "Level list list \<Rightarrow> nat \<Rightarrow> real list \<Rightarrow> nat list \<Rightarrow> RouteCandidate list" where
  "generateAllRouteCandidates allHopLevels hopIndex currentPrices currentIndices =
     (if hopIndex \<ge> length allHopLevels
      then
        (case minLevelVolume allHopLevels currentIndices of
           None \<Rightarrow> []
         | Some volume \<Rightarrow>
             if volume > 0
             then [\<lparr>RouteCandidate.prices = currentPrices,
                    levelIndices = currentIndices,
                    finalPrice = foldl (*) 1 currentPrices,
                    maxVolume = volume\<rparr>]
             else [])
      else
        concat (map (\<lambda>(levelIdx, level).
                       generateAllRouteCandidates allHopLevels (hopIndex + 1)
                         (currentPrices @ [Level.Price level]) (currentIndices @ [levelIdx]))
                  (enumerate 0 (allHopLevels ! hopIndex))))"
  by pat_completeness auto
termination
  by (relation "measure (\<lambda>(allHopLevels, hopIndex, currentPrices, currentIndices).
        length allHopLevels - hopIndex)") auto

declare generateAllRouteCandidates.simps [simp del]

text \<open>
  \<open>sort.Slice\<close> belongs to the Go library: it is taken as a parameter, \<open>sortSlice\<close>,
  which receives the \<open>less\<close> function and the slice.
\<close>

definition sortCandidatesByPrice ::
    "((RouteCandidate \<Rightarrow> RouteCandidate \<Rightarrow> bool) \<Rightarrow> RouteCandidate list \<Rightarrow> RouteCandidate list) \<Rightarrow>
     RouteCandidate list \<Rightarrow> bool \<Rightarrow> RouteCandidate list" where
  "sortCandidatesByPrice sortSlice candidates isAsk =
     sortSlice (\<lambda>ci cj. if isAsk then finalPrice ci < finalPrice cj
                        else finalPrice ci > finalPrice cj) candidates"

definition usableVolume :: "real list list \<Rightarrow> RouteCandidate \<Rightarrow> real" where
  "usableVolume remainingVolumes candidate =
     foldl (\<lambda>maxUsableVolume (hopIdx, levelIdx).
              let available = remainingVolumes ! hopIdx ! levelIdx
              in if available < maxUsableVolume then available else maxUsableVolume)
       (maxVolume candidate) (enumerate 0 (levelIndices candidate))"

definition deductVolume :: "real list list \<Rightarrow> nat list \<Rightarrow> real \<Rightarrow> real list list" where
  "deductVolume remainingVolumes indices maxUsableVolume =
     foldl (\<lambda>remaining (hopIdx, levelIdx).
              remaining[hopIdx := (remaining ! hopIdx)
                [levelIdx := remaining ! hopIdx ! levelIdx - maxUsableVolume]])
       remainingVolumes (enumerate 0 indices)"

text \<open>The greedy loop over the sorted candidates, with its two variables.\<close>

fun greedySelect ::
    "real list list \<Rightarrow> PriceVolumeCombo list \<Rightarrow> RouteCandidate list \<Rightarrow> PriceVolumeCombo list" where
  "greedySelect remainingVolumes result [] = result"
| "greedySelect remainingVolumes result (candidate # candidates) =
     (let maxUsableVolume = usableVolume remainingVolumes candidate
      in if maxUsableVolume > 0
         then greedySelect
                (deductVolume remainingVolumes (levelIndices candidate) maxUsableVolume)
                (result @ [\<lparr>PriceVolumeCombo.prices = RouteCandidate.prices candidate,
                            depth = maxUsableVolume\<rparr>])
                candidates
         else greedySelect remainingVolumes result candidates)"

definition generateCombinationsWithVolumeTracking ::
    "((RouteCandidate \<Rightarrow> RouteCandidate \<Rightarrow> bool) \<Rightarrow> RouteCandidate list \<Rightarrow> RouteCandidate list) \<Rightarrow>
     Level list list \<Rightarrow> bool \<Rightarrow> PriceVolumeCombo list" where
  "generateCombinationsWithVolumeTracking sortSlice allHopLevels isAsk =
     (if length allHopLevels = 0 then []
      else
        let candidates =
              sortCandidatesByPrice sortSlice (generateAllRouteCandidates allHopLevels 0 [] []) isAsk;
            remainingVolumes = map (map Level.Amount) allHopLevels
        in greedySelect remainingVolumes [] candidates)"

definition getAllPriceVolumeCombinations ::
    "((RouteCandidate \<Rightarrow> RouteCandidate \<Rightarrow> bool) \<Rightarrow> RouteCandidate list \<Rightarrow> RouteCandidate list) \<Rightarrow>
     Graph \<Rightarrow> string list \<Rightarrow> bool \<Rightarrow> PriceVolumeCombo list" where
  "getAllPriceVolumeCombinations sortSlice graph path isAsk =
     (if length path < 2 then []
      else
        (case collectHopLevels graph path isAsk of
           None \<Rightarrow> []
         | Some allHopLevels \<Rightarrow>
             generateCombinationsWithVolumeTracking sortSlice allHopLevels isAsk))"

definition calculateOrdersFromPath ::
    "((RouteCandidate \<Rightarrow> RouteCandidate \<Rightarrow> bool) \<Rightarrow> RouteCandidate list \<Rightarrow> RouteCandidate list) \<Rightarrow>
     Graph \<Rightarrow> string list \<Rightarrow> bool \<Rightarrow> VirtualLevel list" where
  "calculateOrdersFromPath sortSlice graph path isAsk =
     (if length path < 2 then []
      else
        let priceVolumeCombos = getAllPriceVolumeCombinations sortSlice graph path isAsk;
            truePath = (if isAsk then rev path else path)
        in concat (map (\<lambda>combo.
                     let effectivePrice = foldl (*) 1 (PriceVolumeCombo.prices combo)
                     in if depth combo > 0
                        then [\<lparr>VirtualLevel.Price = effectivePrice,
                               VirtualLevel.Amount = depth combo,
                               Route = truePath,
                               LevelPrices = PriceVolumeCombo.prices combo\<rparr>]
                        else [])
                   priceVolumeCombos))"

section \<open>Virtual-book finalizer\<close>

definition sortVirtualLevels ::
    "((VirtualLevel \<Rightarrow> VirtualLevel \<Rightarrow> bool) \<Rightarrow> VirtualLevel list \<Rightarrow> VirtualLevel list) \<Rightarrow>
     VirtualLevel list \<Rightarrow> bool \<Rightarrow> VirtualLevel list" where
  "sortVirtualLevels sortSlice levels isAsk =
     sortSlice (\<lambda>li lj. if isAsk then VirtualLevel.Price li < VirtualLevel.Price lj
                        else VirtualLevel.Price li > VirtualLevel.Price lj) levels"

text \<open>The loop of \<open>mergeVirtualLevels\<close> with its variables \<open>merged\<close> and \<open>current\<close>.\<close>

fun mergeLoop :: "VirtualLevel list \<Rightarrow> VirtualLevel \<Rightarrow> VirtualLevel list \<Rightarrow> VirtualLevel list" where
  "mergeLoop merged current [] = merged @ [current]"
| "mergeLoop merged current (level # levels) =
     (if \<bar>VirtualLevel.Price level - VirtualLevel.Price current\<bar> < 1 / 10 ^ 8
      then mergeLoop merged
             (current\<lparr>VirtualLevel.Amount := VirtualLevel.Amount current + VirtualLevel.Amount level,
                      Route := (if VirtualLevel.Price level < VirtualLevel.Price current
                                then Route level else Route current)\<rparr>)
             levels
      else mergeLoop (merged @ [current]) level levels)"

fun mergeVirtualLevels :: "VirtualLevel list \<Rightarrow> VirtualLevel list" where
  "mergeVirtualLevels [] = []"
| "mergeVirtualLevels (first # levels) = mergeLoop [] first levels"

definition buildVirtualOrderbook ::
    "((RouteCandidate \<Rightarrow> RouteCandidate \<Rightarrow> bool) \<Rightarrow> RouteCandidate list \<Rightarrow> RouteCandidate list) \<Rightarrow>
     ((VirtualLevel \<Rightarrow> VirtualLevel \<Rightarrow> bool) \<Rightarrow> VirtualLevel list \<Rightarrow> VirtualLevel list) \<Rightarrow>
     (string list \<Rightarrow> string list \<Rightarrow> string list) \<Rightarrow>
     Graph \<Rightarrow> string \<Rightarrow> string \<Rightarrow> VirtualTradingPair" where
  "buildVirtualOrderbook sortCandidates sortLevels order graph baseCurrency quoteCurrency =
     (let paths = findAllPaths order graph baseCurrency quoteCurrency MAX_PATH_DEPTH;
          askOrders = concat (map (\<lambda>path. calculateOrdersFromPath sortCandidates graph path True) paths);
          bidOrders = concat (map (\<lambda>path. calculateOrdersFromPath sortCandidates graph path False) paths)
      in \<lparr>VirtualTradingPair.Base = baseCurrency,
          VirtualTradingPair.Quote = quoteCurrency,
          VirtualTradingPair.AskOrders =
            mergeVirtualLevels (sortVirtualLevels sortLevels askOrders True),
          VirtualTradingPair.BidOrders =
            mergeVirtualLevels (sortVirtualLevels sortLevels bidOrders False)\<rparr>)"

section \<open>Executor\<close>

text \<open>
  The effective price the executor returns is a \<open>float64\<close> that the code sets to
  \<open>math.NaN()\<close> for an empty book.
\<close>

datatype float64 = NaN | Num real

record ExecState =
  remainingAmount :: real
  totalCost :: real
  executedAmount :: real
  bestRoute :: "VirtualLevel list"

fun executeLoop :: "ExecState \<Rightarrow> VirtualLevel list \<Rightarrow> ExecState" where
  "executeLoop st [] = st"
| "executeLoop st (level # levels) =
     (if remainingAmount st \<le> 0 then st
      else
        let executed = min (remainingAmount st) (VirtualLevel.Amount level);
            cost = executed * VirtualLevel.Price level
        in executeLoop
             \<lparr>remainingAmount = remainingAmount st - executed,
              totalCost = totalCost st + cost,
              executedAmount = executedAmount st + executed,
              bestRoute = bestRoute st @
                [\<lparr>VirtualLevel.Price = VirtualLevel.Price level,
                  VirtualLevel.Amount = executed,
                  Route = Route level,
                  LevelPrices = LevelPrices level\<rparr>]\<rparr>
             levels)"

definition findBestRouteFromVirtualOrderbook ::
    "VirtualLevel list \<Rightarrow> real \<Rightarrow> float64 \<times> VirtualLevel list" where
  "findBestRouteFromVirtualOrderbook levels targetAmount =
     (if length levels = 0 then (NaN, [])
      else
        let st = executeLoop
                   \<lparr>remainingAmount = targetAmount, totalCost = 0, executedAmount = 0,
                    bestRoute = []\<rparr> levels;
            effectivePrice =
              (if executedAmount st > 0 \<and> targetAmount > 0
               then totalCost st / min (executedAmount st) targetAmount
               else 0)
        in (Num effectivePrice, bestRoute st))"

section \<open>What is assumed of the Go library and runtime\<close>

text \<open>
  \<open>sort.Slice\<close> returns a permutation of the slice, ordered by \<open>less\<close> whenever \<open>less\<close>
  is a strict weak ordering; it is not stable. The iteration over a map yields every
  key once, in any order.
\<close>

definition strictWeakOrder :: "('a \<Rightarrow> 'a \<Rightarrow> bool) \<Rightarrow> bool" where
  "strictWeakOrder lessFn \<longleftrightarrow>
     (\<forall>a b. lessFn a b \<longrightarrow> \<not> lessFn b a) \<and>
     (\<forall>a b c. \<not> lessFn b a \<and> \<not> lessFn c b \<longrightarrow> \<not> lessFn c a)"

definition sortSliceContract :: "(('a \<Rightarrow> 'a \<Rightarrow> bool) \<Rightarrow> 'a list \<Rightarrow> 'a list) \<Rightarrow> bool" where
  "sortSliceContract sortSlice \<longleftrightarrow>
     (\<forall>lessFn xs. mset (sortSlice lessFn xs) = mset xs \<and>
        (strictWeakOrder lessFn \<longrightarrow> sorted_wrt (\<lambda>a b. \<not> lessFn b a) (sortSlice lessFn xs)))"

definition rangeOrderContract :: "(string list \<Rightarrow> string list \<Rightarrow> string list) \<Rightarrow> bool" where
  "rangeOrderContract order \<longleftrightarrow> (\<forall>path keys. mset (order path keys) = mset keys)"

text \<open>
  One sort and one iteration order that meet these contracts: the insertion sort that
  the library itself runs on slices of at most twelve elements, and the iteration in
  the order in which the keys were stored.
\<close>

fun insertSorted :: "('a \<Rightarrow> 'a \<Rightarrow> bool) \<Rightarrow> 'a \<Rightarrow> 'a list \<Rightarrow> 'a list" where
  "insertSorted lessFn x [] = [x]"
| "insertSorted lessFn x (y # ys) =
     (if lessFn y x then y # insertSorted lessFn x ys else x # y # ys)"

fun insertionSort :: "('a \<Rightarrow> 'a \<Rightarrow> bool) \<Rightarrow> 'a list \<Rightarrow> 'a list" where
  "insertionSort lessFn [] = []"
| "insertionSort lessFn (x # xs) = insertSorted lessFn x (insertionSort lessFn xs)"

definition storedOrder :: "string list \<Rightarrow> string list \<Rightarrow> string list" where
  "storedOrder path keys = keys"

section \<open>Concrete inputs\<close>

definition cappedExample :: TradingPair where
  "cappedExample =
     \<lparr>TradingPair.Base = ''KNC'', TradingPair.Quote = ''USDT'',
      TradingPair.AskOrders =
        [\<lparr>Level.Price = 1, Level.Amount = 10\<rparr>, \<lparr>Level.Price = 2, Level.Amount = 20\<rparr>,
         \<lparr>Level.Price = 0, Level.Amount = 5\<rparr>, \<lparr>Level.Price = 3, Level.Amount = 30\<rparr>,
         \<lparr>Level.Price = 4, Level.Amount = 40\<rparr>, \<lparr>Level.Price = 5, Level.Amount = 50\<rparr>],
      TradingPair.BidOrders = [\<lparr>Level.Price = 9 / 10, Level.Amount = 100\<rparr>]\<rparr>"



definition fillAmounts :: "VirtualLevel list \<Rightarrow> real" where
  "fillAmounts levels = sum_list (map VirtualLevel.Amount levels)"

definition executorExample :: "VirtualLevel list" where
  "executorExample =
     [\<lparr>VirtualLevel.Price = 1 / 30, VirtualLevel.Amount = 200,
       Route = [''ETH'', ''USDT'', ''KNC''], LevelPrices = [1, 1 / 30]\<rparr>,
      \<lparr>VirtualLevel.Price = 7 / 150, VirtualLevel.Amount = 100,
       Route = [''ETH'', ''USDT'', ''KNC''], LevelPrices = [14 / 10, 1 / 30]\<rparr>]"









definition scenario1 :: "TradingPair list" where
  "scenario1 =
     [\<lparr>TradingPair.Base = ''KNC'', TradingPair.Quote = ''USDT'',
       TradingPair.AskOrders =
         [\<lparr>Level.Price = 1, Level.Amount = 200\<rparr>, \<lparr>Level.Price = 14 / 10, Level.Amount = 400\<rparr>],
       TradingPair.BidOrders =
         [\<lparr>Level.Price = 9 / 10, Level.Amount = 100\<rparr>, \<lparr>Level.Price = 8 / 10, Level.Amount = 300\<rparr>]\<rparr>,
      \<lparr>TradingPair.Base = ''ETH'', TradingPair.Quote = ''USDT'',
       TradingPair.AskOrders = [\<lparr>Level.Price = 40, Level.Amount = 10\<rparr>],
       TradingPair.BidOrders =
         [\<lparr>Level.Price = 30, Level.Amount = 10\<rparr>, \<lparr>Level.Price = 20, Level.Amount = 15\<rparr>]\<rparr>]"

definition scenario1Graph :: Graph where
  "scenario1Graph =
  [(''KNC'',
   [(''USDT'',
     \<lparr>TradingPair.Base = ''KNC'', TradingPair.Quote = ''USDT'',
        TradingPair.AskOrders =
          [\<lparr>Level.Price = 1, Level.Amount = 200\<rparr>,
           \<lparr>Level.Price = 7 / 5, Level.Amount = 400\<rparr>],
        TradingPair.BidOrders =
          [\<lparr>Level.Price = 9 / 10, Level.Amount = 100\<rparr>,
           \<lparr>Level.Price = 4 / 5, Level.Amount = 300\<rparr>]\<rparr>)]),
  (''USDT'',
   [(''KNC'',
     \<lparr>TradingPair.Base = ''USDT'', TradingPair.Quote = ''KNC'',
        TradingPair.AskOrders =
          [\<lparr>Level.Price = 10 / 9, Level.Amount = 90\<rparr>,
           \<lparr>Level.Price = 5 / 4, Level.Amount = 240\<rparr>],
        TradingPair.BidOrders =
          [\<lparr>Level.Price = 1, Level.Amount = 200\<rparr>,
           \<lparr>Level.Price = 5 / 7, Level.Amount = 560\<rparr>]\<rparr>),
    (''ETH'',
     \<lparr>TradingPair.Base = ''USDT'', TradingPair.Quote = ''ETH'',
        TradingPair.AskOrders =
          [\<lparr>Level.Price = 1 / 30, Level.Amount = 300\<rparr>,
           \<lparr>Level.Price = 1 / 20, Level.Amount = 300\<rparr>],
        TradingPair.BidOrders = [\<lparr>Level.Price = 1 / 40, Level.Amount = 400\<rparr>]\<rparr>)]),
  (''ETH'',
   [(''USDT'',
     \<lparr>TradingPair.Base = ''ETH'', TradingPair.Quote = ''USDT'',
        TradingPair.AskOrders = [\<lparr>Level.Price = 40, Level.Amount = 10\<rparr>],
        TradingPair.BidOrders =
          [\<lparr>Level.Price = 30, Level.Amount = 10\<rparr>,
           \<lparr>Level.Price = 20, Level.Amount = 15\<rparr>]\<rparr>)])]"

definition scenario1AskBook :: "VirtualLevel list" where
  "scenario1AskBook =
     [\<lparr>VirtualLevel.Price = 1 / 30, VirtualLevel.Amount = 200,
       Route = [''ETH'', ''USDT'', ''KNC''], LevelPrices = [1, 1 / 30]\<rparr>,
      \<lparr>VirtualLevel.Price = (14 / 10) / 30, VirtualLevel.Amount = 100,
       Route = [''ETH'', ''USDT'', ''KNC''], LevelPrices = [14 / 10, 1 / 30]\<rparr>,
      \<lparr>VirtualLevel.Price = (14 / 10) / 20, VirtualLevel.Amount = 300,
       Route = [''ETH'', ''USDT'', ''KNC''], LevelPrices = [14 / 10, 1 / 20]\<rparr>]"

section \<open>Properties of the graph builder\<close>

lemma invertOrders_map_filter:
  "invertOrders levels = map invertLevel (positiveLevels levels)"
  by (induction levels) (simp_all add: invertLevel_def positiveLevels_def)

lemma edge_makeEntry: "edge (makeEntry graph x) a b = edge graph a b"
  by (simp add: edge_def adjacency_def makeEntry_def update_conv' split: option.splits)

lemma edge_storeEdge:
  "edge (storeEdge graph x y pair) a b =
     (if a = x \<and> b = y then Some pair else edge graph a b)"
  by (simp add: edge_def adjacency_def storeEdge_def update_conv' split: option.splits)

lemma take_min_length: "take (min (length xs) n) xs = take n xs"
  by (simp add: min_def)

lemma storePair_eq:
  "storePair graph pair =
     storeEdge
       (storeEdge (makeEntry (makeEntry graph (TradingPair.Base pair)) (TradingPair.Quote pair))
          (TradingPair.Base pair) (TradingPair.Quote pair) (cappedPair pair))
       (TradingPair.Quote pair) (TradingPair.Base pair) (invertedPair pair)"
  unfolding storePair_def Let_def take_min_length MAX_LEVELS_PER_PAIR_def invertedPair_def
    cappedPair_def invertOrders_map_filter
  by (rule refl)

lemma edge_storePair:
  "edge (storePair graph pair) a b =
     (if a = TradingPair.Quote pair \<and> b = TradingPair.Base pair then Some (invertedPair pair)
      else if a = TradingPair.Base pair \<and> b = TradingPair.Quote pair then Some (cappedPair pair)
      else edge graph a b)"
  unfolding storePair_eq by (simp only: edge_storeEdge edge_makeEntry)

lemma edge_storePair_other:
  assumes "\<not> onCurrencies x y q"
  shows "edge (storePair graph q) x y = edge graph x y"
proof -
  have a: "\<not> (x = TradingPair.Quote q \<and> y = TradingPair.Base q)"
    using assms unfolding onCurrencies_def by blast
  have b: "\<not> (x = TradingPair.Base q \<and> y = TradingPair.Quote q)"
    using assms unfolding onCurrencies_def by blast
  show ?thesis unfolding edge_storePair using a b by (simp only: if_False)
qed

lemma edge_foldl_storePair_other:
  "list_all (\<lambda>q. \<not> onCurrencies x y q) later
   \<Longrightarrow> edge (foldl storePair graph later) x y = edge graph x y"
proof (induction later arbitrary: graph)
  case Nil
  show ?case by simp
next
  case (Cons q later)
  have tl: "list_all (\<lambda>q. \<not> onCurrencies x y q) later" and hd: "\<not> onCurrencies x y q"
    using Cons.prems by simp_all
  have "edge (foldl storePair (storePair graph q) later) x y = edge (storePair graph q) x y"
    by (rule Cons.IH [OF tl])
  also have "\<dots> = edge graph x y"
    by (rule edge_storePair_other [OF hd])
  finally show ?case by simp
qed

lemma onCurrencies_commute: "onCurrencies y x q = onCurrencies x y q"
  unfolding onCurrencies_def by blast

lemma edge_buildGraph_last_writer:
  assumes "\<forall>q \<in> set later. \<not> sameCurrencies q pair"
  shows "edge (buildGraph (earlier @ pair # later)) (TradingPair.Quote pair) (TradingPair.Base pair)
           = Some (invertedPair pair)"
    and "TradingPair.Base pair \<noteq> TradingPair.Quote pair \<Longrightarrow>
         edge (buildGraph (earlier @ pair # later)) (TradingPair.Base pair) (TradingPair.Quote pair)
           = Some (cappedPair pair)"
proof -
  let ?g = "foldl storePair [] earlier"
  let ?b = "TradingPair.Base pair" and ?q = "TradingPair.Quote pair"
  have split: "buildGraph (earlier @ pair # later) = foldl storePair (storePair ?g pair) later"
    by (simp add: buildGraph_def)
  have o1: "list_all (\<lambda>q. \<not> onCurrencies ?b ?q q) later"
    using assms unfolding sameCurrencies_def list_all_iff .
  have o2: "list_all (\<lambda>q. \<not> onCurrencies ?q ?b q) later"
    using o1 unfolding onCurrencies_commute [of ?q ?b] .
  show "edge (buildGraph (earlier @ pair # later)) ?q ?b = Some (invertedPair pair)"
    unfolding split edge_foldl_storePair_other [OF o2] edge_storePair by simp
  show "edge (buildGraph (earlier @ pair # later)) ?b ?q = Some (cappedPair pair)"
    if "?b \<noteq> ?q"
    unfolding split edge_foldl_storePair_other [OF o1] edge_storePair using that by simp
qed

text \<open>
  C7. The level cap is 5 and is applied to the asks and to the bids of an input pair
  before its edge is stored and before the reverse edge is built: as long as no later
  input pair is on the same two currencies (a later one overwrites both edges), the
  reverse edge holds the inversion of the first five bids and of the first five asks,
  only the levels with a positive price being inverted, and the forward edge holds the
  first five asks and the first five bids (when base and quote differ; otherwise the
  reverse edge is stored over it).
\<close>

theorem buildGraph_level_cap:
  assumes "\<forall>q \<in> set later. \<not> sameCurrencies q pair"
  shows "MAX_LEVELS_PER_PAIR = 5 \<and>
         edge (buildGraph (earlier @ pair # later)) (TradingPair.Quote pair) (TradingPair.Base pair)
           = Some \<lparr>TradingPair.Base = TradingPair.Quote pair,
                   TradingPair.Quote = TradingPair.Base pair,
                   TradingPair.AskOrders =
                     map invertLevel (filter (\<lambda>level. Level.Price level > 0)
                       (take 5 (TradingPair.BidOrders pair))),
                   TradingPair.BidOrders =
                     map invertLevel (filter (\<lambda>level. Level.Price level > 0)
                       (take 5 (TradingPair.AskOrders pair)))\<rparr> \<and>
         (TradingPair.Base pair \<noteq> TradingPair.Quote pair \<longrightarrow>
          edge (buildGraph (earlier @ pair # later)) (TradingPair.Base pair) (TradingPair.Quote pair)
           = Some \<lparr>TradingPair.Base = TradingPair.Base pair,
                   TradingPair.Quote = TradingPair.Quote pair,
                   TradingPair.AskOrders = take 5 (TradingPair.AskOrders pair),
                   TradingPair.BidOrders = take 5 (TradingPair.BidOrders pair)\<rparr>)"
  using edge_buildGraph_last_writer [OF assms, of earlier]
  unfolding MAX_LEVELS_PER_PAIR_def invertedPair_def cappedPair_def positiveLevels_def
  by blast

theorem buildGraph_level_cap_witness:
  "list_all (\<lambda>q. \<not> sameCurrencies q cappedExample) (tl scenario1) \<and>
   TradingPair.Base cappedExample \<noteq> TradingPair.Quote cappedExample \<and>
   edge (buildGraph ([] @ cappedExample # tl scenario1)) ''USDT'' ''KNC'' =
     Some \<lparr>TradingPair.Base = ''USDT'', TradingPair.Quote = ''KNC'',
            TradingPair.AskOrders = [\<lparr>Level.Price = 10 / 9, Level.Amount = 90\<rparr>],
            TradingPair.BidOrders =
              [\<lparr>Level.Price = 1, Level.Amount = 10\<rparr>, \<lparr>Level.Price = 1 / 2, Level.Amount = 40\<rparr>,
               \<lparr>Level.Price = 1 / 3, Level.Amount = 90\<rparr>,
               \<lparr>Level.Price = 1 / 4, Level.Amount = 160\<rparr>]\<rparr> \<and>
   edge (buildGraph ([] @ cappedExample # tl scenario1)) ''KNC'' ''USDT'' =
     Some \<lparr>TradingPair.Base = ''KNC'', TradingPair.Quote = ''USDT'',
            TradingPair.AskOrders =
              [\<lparr>Level.Price = 1, Level.Amount = 10\<rparr>, \<lparr>Level.Price = 2, Level.Amount = 20\<rparr>,
               \<lparr>Level.Price = 0, Level.Amount = 5\<rparr>, \<lparr>Level.Price = 3, Level.Amount = 30\<rparr>,
               \<lparr>Level.Price = 4, Level.Amount = 40\<rparr>],
            TradingPair.BidOrders = [\<lparr>Level.Price = 9 / 10, Level.Amount = 100\<rparr>]\<rparr>"
proof -
  have h: "\<forall>q \<in> set (tl scenario1). \<not> sameCurrencies q cappedExample"
    by (simp add: scenario1_def cappedExample_def sameCurrencies_def onCurrencies_def)
  show ?thesis
    using h buildGraph_level_cap [OF h, of "[]"]
    by (simp add: cappedExample_def invertLevel_def list_all_iff)
qed







section \<open>Properties of the executor\<close>

lemma fillAmounts_simps [simp]:
  "fillAmounts [] = 0"
  "fillAmounts (level # levels) = VirtualLevel.Amount level + fillAmounts levels"
  "fillAmounts (levels @ others) = fillAmounts levels + fillAmounts others"
  by (simp_all add: fillAmounts_def)





text \<open>
  C10. An empty book is answered by no fill and the effective price NaN, whatever the
  target, and NaN is not the price 0; a non-empty book asked for a target that is not
  positive is answered by no fill and the effective price 0.
\<close>

theorem executor_empty_book_and_nonpositive_target:
  "findBestRouteFromVirtualOrderbook [] targetAmount = (NaN, []) \<and> NaN \<noteq> Num 0 \<and>
   (targetAmount \<le> 0 \<longrightarrow>
    findBestRouteFromVirtualOrderbook (level # levels) targetAmount = (Num 0, []))"
  by (simp add: findBestRouteFromVirtualOrderbook_def Let_def)

theorem executor_empty_book_and_nonpositive_target_witness:
  "findBestRouteFromVirtualOrderbook [] (-3) = (NaN, []) \<and>
   (-3::real) \<le> 0 \<and>
   findBestRouteFromVirtualOrderbook executorExample (-3) = (Num 0, [])"
  using executor_empty_book_and_nonpositive_target
      [of "-3" "hd executorExample" "tl executorExample"]
  by (simp add: executorExample_def)

section \<open>Properties of the finalizer\<close>











section \<open>Order and separation of the finalized book\<close>











section \<open>The library contracts and their instances\<close>

lemma sortSlice_unique:
  assumes contract: "sortSliceContract sortSlice"
      and swo: "strictWeakOrder lessFn"
      and perm: "mset ys = mset xs"
      and strict: "sorted_wrt lessFn ys"
  shows "sortSlice lessFn xs = ys"
proof -
  have m: "mset (sortSlice lessFn xs) = mset ys"
    using contract perm by (simp add: sortSliceContract_def)
  have s: "sorted_wrt (\<lambda>a b. \<not> lessFn b a) (sortSlice lessFn xs)"
    using contract swo by (simp add: sortSliceContract_def)
  have "zs = ys" if "mset zs = mset ys" "sorted_wrt (\<lambda>a b. \<not> lessFn b a) zs" for zs
    using that strict
  proof (induction ys arbitrary: zs)
    case Nil
    then show ?case by simp
  next
    case (Cons y ys)
    from Cons.prems(1) obtain z zs' where zs: "zs = z # zs'"
      by (cases zs) auto
    have "z = y"
    proof (rule ccontr)
      assume ne: "z \<noteq> y"
      have "y \<in> set zs" using Cons.prems(1) by (metis list.set_intros(1) mset_eq_setD)
      then have "y \<in> set zs'" using ne zs by auto
      then have no: "\<not> lessFn y z" using Cons.prems(2) zs by auto
      have "z \<in> set (y # ys)" using Cons.prems(1) zs by (metis list.set_intros(1) mset_eq_setD)
      then have "z \<in> set ys" using ne by auto
      then have "lessFn y z" using Cons.prems(3) by auto
      then show False using no by blast
    qed
    then have "mset zs' = mset ys" using Cons.prems(1) zs by simp
    moreover have "sorted_wrt (\<lambda>a b. \<not> lessFn b a) zs'" using Cons.prems(2) zs by simp
    moreover have "sorted_wrt lessFn ys" using Cons.prems(3) by simp
    ultimately have "zs' = ys" by (rule Cons.IH)
    then show ?case using zs \<open>z = y\<close> by simp
  qed
  then show ?thesis using m s by blast
qed

lemma strictWeakOrder_finalPrice:
  "strictWeakOrder (\<lambda>ci cj. if isAsk then finalPrice ci < finalPrice cj
                            else finalPrice ci > finalPrice cj)"
  by (cases isAsk) (simp_all add: strictWeakOrder_def not_less)

lemma set_insertSorted: "mset (insertSorted lessFn x xs) = add_mset x (mset xs)"
  by (induction xs) simp_all

lemma mset_insertionSort: "mset (insertionSort lessFn xs) = mset xs"
  by (induction xs) (simp_all add: set_insertSorted)

lemma sorted_insertSorted:
  assumes "strictWeakOrder lessFn" "sorted_wrt (\<lambda>a b. \<not> lessFn b a) xs"
  shows "sorted_wrt (\<lambda>a b. \<not> lessFn b a) (insertSorted lessFn x xs)"
  using assms(2)
proof (induction xs)
  case Nil
  show ?case by simp
next
  case (Cons y ys)
  have asym: "\<And>a b. lessFn a b \<Longrightarrow> \<not> lessFn b a"
    and ntrans: "\<And>a b c. \<not> lessFn b a \<Longrightarrow> \<not> lessFn c b \<Longrightarrow> \<not> lessFn c a"
    using assms(1) unfolding strictWeakOrder_def by blast+
  show ?case
  proof (cases "lessFn y x")
    case True
    have "set (insertSorted lessFn x ys) = insert x (set ys)"
      using set_insertSorted [of lessFn x ys] by (metis set_mset_add_mset_insert set_mset_mset)
    then show ?thesis using True Cons asym by auto
  next
    case False
    have "\<forall>b \<in> set ys. \<not> lessFn b x"
      using Cons.prems False ntrans by auto
    then show ?thesis using False Cons.prems by auto
  qed
qed

lemma insertionSort_contract: "sortSliceContract insertionSort"
proof -
  have "sorted_wrt (\<lambda>a b. \<not> lessFn b a) (insertionSort lessFn xs)"
    if "strictWeakOrder lessFn" for lessFn :: "'a \<Rightarrow> 'a \<Rightarrow> bool" and xs
    by (induction xs) (simp_all add: sorted_insertSorted [OF that])
  then show ?thesis
    unfolding sortSliceContract_def using mset_insertionSort by blast
qed

lemma storedOrder_contract: "rangeOrderContract storedOrder"
  by (simp add: rangeOrderContract_def storedOrder_def)

section \<open>Scenario 1\<close>

lemma scenario1_graph: "buildGraph scenario1 = scenario1Graph"
  by (simp add: buildGraph_def scenario1_def scenario1Graph_def storePair_def Let_def
      makeEntry_def storeEdge_def adjacency_def MAX_LEVELS_PER_PAIR_def)

lemma rangeOrder_single:
  assumes "rangeOrderContract order"
  shows "order path [a] = [a]"
proof -
  have "mset (order path [a]) = {#a#}"
    using assms by (simp add: rangeOrderContract_def)
  then show ?thesis by (simp add: mset_single_iff_right)
qed

lemma rangeOrder_pair:
  assumes "rangeOrderContract order"
  shows "order path [a, b] = [a, b] \<or> order path [a, b] = [b, a]"
proof -
  have m: "mset (order path [a, b]) = {#a, b#}"
    using assms by (simp add: rangeOrderContract_def)
  then have "length (order path [a, b]) = 2"
    using mset_eq_length [of "order path [a, b]" "[a, b]"] by simp
  then have "\<exists>u v. order path [a, b] = [u, v]"
    by (auto simp: numeral_2_eq_2 length_Suc_conv)
  then obtain u v where uv: "order path [a, b] = [u, v]" by blast
  from m show ?thesis unfolding uv by (auto simp: add_eq_conv_ex)
qed

lemma scenario1_paths:
  assumes "rangeOrderContract order"
  shows "findAllPaths order scenario1Graph ''KNC'' ''ETH'' MAX_PATH_DEPTH
           = [[''KNC'', ''USDT'', ''ETH'']]"
proof -
  have adjK: "map fst (adjacency scenario1Graph ''KNC'') = [''USDT'']"
    and adjU: "map fst (adjacency scenario1Graph ''USDT'') = [''KNC'', ''ETH'']"
    by (simp_all add: adjacency_def scenario1Graph_def)
  have leaf: "findPathsRecursive order scenario1Graph ''ETH'' ''ETH'' visited
                [''KNC'', ''USDT'', ''ETH''] 5 = ([[''KNC'', ''USDT'', ''ETH'']], visited)"
    for visited
    by (simp add: findPathsRecursive.simps)
  let ?v = "(\<lambda>token. False)(''KNC'' := True, ''USDT'' := True)"
  have loopU: "pathsLoop order scenario1Graph (order [''KNC'', ''USDT''] [''KNC'', ''ETH''])
                 ''ETH'' ?v [''KNC'', ''USDT''] 5 = ([[''KNC'', ''USDT'', ''ETH'']], ?v)"
    using rangeOrder_pair [OF assms, of "[''KNC'', ''USDT'']" "''KNC''" "''ETH''"]
    by (elim disjE) (simp_all add: leaf)
  have midU: "findPathsRecursive order scenario1Graph ''USDT'' ''ETH''
                ((\<lambda>token. False)(''KNC'' := True)) [''KNC'', ''USDT''] 5
              = ([[''KNC'', ''USDT'', ''ETH'']], (\<lambda>token. False)(''KNC'' := True, ''USDT'' := False))"
    by (subst findPathsRecursive.simps) (simp add: adjU loopU)
  show ?thesis
    unfolding findAllPaths_def MAX_PATH_DEPTH_def
    by (subst findPathsRecursive.simps)
       (simp add: adjK rangeOrder_single [OF assms] midU)
qed

lemma scenario1_hops:
  "collectHopLevels scenario1Graph [''KNC'', ''USDT'', ''ETH''] True =
     Some [[\<lparr>Level.Price = 1, Level.Amount = 200\<rparr>, \<lparr>Level.Price = 7 / 5, Level.Amount = 400\<rparr>],
           [\<lparr>Level.Price = 1 / 30, Level.Amount = 300\<rparr>, \<lparr>Level.Price = 1 / 20, Level.Amount = 300\<rparr>]]"
  by (simp add: scenario1Graph_def edge_def adjacency_def)

lemma scenario1_candidates:
  "generateAllRouteCandidates
     [[\<lparr>Level.Price = 1, Level.Amount = 200\<rparr>, \<lparr>Level.Price = 7 / 5, Level.Amount = 400\<rparr>],
      [\<lparr>Level.Price = 1 / 30, Level.Amount = 300\<rparr>, \<lparr>Level.Price = 1 / 20, Level.Amount = 300\<rparr>]]
     0 [] [] =
   [\<lparr>RouteCandidate.prices = [1, 1 / 30], levelIndices = [0, 0],
      finalPrice = 1 / 30, maxVolume = 200\<rparr>,
    \<lparr>RouteCandidate.prices = [1, 1 / 20], levelIndices = [0, 1],
      finalPrice = 1 / 20, maxVolume = 200\<rparr>,
    \<lparr>RouteCandidate.prices = [7 / 5, 1 / 30], levelIndices = [1, 0],
      finalPrice = 7 / 150, maxVolume = 300\<rparr>,
    \<lparr>RouteCandidate.prices = [7 / 5, 1 / 20], levelIndices = [1, 1],
      finalPrice = 7 / 100, maxVolume = 300\<rparr>]"
  by (simp add: generateAllRouteCandidates.simps minLevelVolume_def enumerate_eq_zip upt_rec)

lemma scenario1_sorted_candidates:
  assumes "sortSliceContract sortCandidates"
  shows "sortCandidatesByPrice sortCandidates
   [\<lparr>RouteCandidate.prices = [1, 1 / 30], levelIndices = [0, 0],
      finalPrice = 1 / 30, maxVolume = 200\<rparr>,
    \<lparr>RouteCandidate.prices = [1, 1 / 20], levelIndices = [0, 1],
      finalPrice = 1 / 20, maxVolume = 200\<rparr>,
    \<lparr>RouteCandidate.prices = [7 / 5, 1 / 30], levelIndices = [1, 0],
      finalPrice = 7 / 150, maxVolume = 300\<rparr>,
    \<lparr>RouteCandidate.prices = [7 / 5, 1 / 20], levelIndices = [1, 1],
      finalPrice = 7 / 100, maxVolume = 300\<rparr>] True =
   [\<lparr>RouteCandidate.prices = [1, 1 / 30], levelIndices = [0, 0],
      finalPrice = 1 / 30, maxVolume = 200\<rparr>,
    \<lparr>RouteCandidate.prices = [7 / 5, 1 / 30], levelIndices = [1, 0],
      finalPrice = 7 / 150, maxVolume = 300\<rparr>,
    \<lparr>RouteCandidate.prices = [1, 1 / 20], levelIndices = [0, 1],
      finalPrice = 1 / 20, maxVolume = 200\<rparr>,
    \<lparr>RouteCandidate.prices = [7 / 5, 1 / 20], levelIndices = [1, 1],
      finalPrice = 7 / 100, maxVolume = 300\<rparr>]"
  unfolding sortCandidatesByPrice_def
  by (rule sortSlice_unique [OF assms strictWeakOrder_finalPrice]) simp_all

lemma scenario1_combos:
  assumes "sortSliceContract sortCandidates"
  shows "getAllPriceVolumeCombinations sortCandidates scenario1Graph
           [''KNC'', ''USDT'', ''ETH''] True
         = [\<lparr>PriceVolumeCombo.prices = [1, 1 / 30], depth = 200\<rparr>,
            \<lparr>PriceVolumeCombo.prices = [7 / 5, 1 / 30], depth = 100\<rparr>,
            \<lparr>PriceVolumeCombo.prices = [7 / 5, 1 / 20], depth = 300\<rparr>]"
  unfolding getAllPriceVolumeCombinations_def scenario1_hops
    generateCombinationsWithVolumeTracking_def option.case scenario1_candidates
    scenario1_sorted_candidates [OF assms]
  by (simp add: Let_def usableVolume_def deductVolume_def enumerate_eq_zip upt_rec)

lemma scenario1_path_orders:
  assumes "sortSliceContract sortCandidates"
  shows "calculateOrdersFromPath sortCandidates scenario1Graph [''KNC'', ''USDT'', ''ETH''] True
           = scenario1AskBook"
  unfolding calculateOrdersFromPath_def scenario1_combos [OF assms]
  by (simp add: scenario1AskBook_def)

lemma strictWeakOrder_levelPrice:
  "strictWeakOrder (\<lambda>li lj. if isAsk then VirtualLevel.Price li < VirtualLevel.Price lj
                            else VirtualLevel.Price li > VirtualLevel.Price lj)"
  by (cases isAsk) (simp_all add: strictWeakOrder_def not_less)

lemma scenario1_sorted_levels:
  assumes "sortSliceContract sortLevels"
  shows "sortVirtualLevels sortLevels scenario1AskBook True = scenario1AskBook"
  unfolding sortVirtualLevels_def
  by (rule sortSlice_unique [OF assms strictWeakOrder_levelPrice])
     (simp_all add: scenario1AskBook_def)

lemma scenario1_merged: "mergeVirtualLevels scenario1AskBook = scenario1AskBook"
  by (simp add: scenario1AskBook_def)

lemma scenario1_ask_book:
  assumes "sortSliceContract sortCandidates" and "sortSliceContract sortLevels"
      and "rangeOrderContract order"
  shows "VirtualTradingPair.AskOrders
           (buildVirtualOrderbook sortCandidates sortLevels order (buildGraph scenario1)
              ''KNC'' ''ETH'') = scenario1AskBook"
  by (simp add: buildVirtualOrderbook_def Let_def scenario1_graph
      scenario1_paths [OF assms(3)] scenario1_path_orders [OF assms(1)]
      scenario1_sorted_levels [OF assms(2)] scenario1_merged)

text \<open>
  C2. Scenario 1: for the pairs KNC/USDT and ETH/USDT of the scenario, whatever the
  library sort does with equal prices and in whatever order the adjacency maps are
  walked, the ask side of the virtual book for (KNC, ETH) is exactly
  \<open>(1/30, 200), (1.4/30, 100), (1.4/20, 300)\<close> in that order, and the target 300 is
  filled by 200 at \<open>1/30\<close> and 100 at \<open>1.4/30\<close>, at the effective price \<open>34/900\<close>.
\<close>

theorem scenario1_book_and_execution:
  assumes "sortSliceContract sortCandidates" and "sortSliceContract sortLevels"
      and "rangeOrderContract order"
  shows "VirtualTradingPair.AskOrders
           (buildVirtualOrderbook sortCandidates sortLevels order (buildGraph scenario1)
              ''KNC'' ''ETH'')
         = [\<lparr>VirtualLevel.Price = 1 / 30, VirtualLevel.Amount = 200,
             Route = [''ETH'', ''USDT'', ''KNC''], LevelPrices = [1, 1 / 30]\<rparr>,
            \<lparr>VirtualLevel.Price = (14 / 10) / 30, VirtualLevel.Amount = 100,
             Route = [''ETH'', ''USDT'', ''KNC''], LevelPrices = [14 / 10, 1 / 30]\<rparr>,
            \<lparr>VirtualLevel.Price = (14 / 10) / 20, VirtualLevel.Amount = 300,
             Route = [''ETH'', ''USDT'', ''KNC''], LevelPrices = [14 / 10, 1 / 20]\<rparr>] \<and>
         findBestRouteFromVirtualOrderbook
           (VirtualTradingPair.AskOrders
              (buildVirtualOrderbook sortCandidates sortLevels order (buildGraph scenario1)
                 ''KNC'' ''ETH'')) 300
         = (Num (34 / 900),
            [\<lparr>VirtualLevel.Price = 1 / 30, VirtualLevel.Amount = 200,
              Route = [''ETH'', ''USDT'', ''KNC''], LevelPrices = [1, 1 / 30]\<rparr>,
             \<lparr>VirtualLevel.Price = (14 / 10) / 30, VirtualLevel.Amount = 100,
              Route = [''ETH'', ''USDT'', ''KNC''], LevelPrices = [14 / 10, 1 / 30]\<rparr>])"
proof -
  note book = scenario1_ask_book [OF assms]
  have exec: "findBestRouteFromVirtualOrderbook scenario1AskBook 300
         = (Num (34 / 900),
            [\<lparr>VirtualLevel.Price = 1 / 30, VirtualLevel.Amount = 200,
              Route = [''ETH'', ''USDT'', ''KNC''], LevelPrices = [1, 1 / 30]\<rparr>,
             \<lparr>VirtualLevel.Price = (14 / 10) / 30, VirtualLevel.Amount = 100,
              Route = [''ETH'', ''USDT'', ''KNC''], LevelPrices = [14 / 10, 1 / 30]\<rparr>])"
    by (simp add: findBestRouteFromVirtualOrderbook_def Let_def scenario1AskBook_def)
  show ?thesis unfolding book exec by (simp add: scenario1AskBook_def)
qed

theorem scenario1_book_and_execution_witness:
  "sortSliceContract (insertionSort ::
     (RouteCandidate \<Rightarrow> RouteCandidate \<Rightarrow> bool) \<Rightarrow> RouteCandidate list \<Rightarrow> RouteCandidate list) \<and>
   sortSliceContract (insertionSort ::
     (VirtualLevel \<Rightarrow> VirtualLevel \<Rightarrow> bool) \<Rightarrow> VirtualLevel list \<Rightarrow> VirtualLevel list) \<and>
   rangeOrderContract storedOrder \<and>
   VirtualTradingPair.AskOrders
     (buildVirtualOrderbook insertionSort insertionSort storedOrder (buildGraph scenario1)
        ''KNC'' ''ETH'')
   = [\<lparr>VirtualLevel.Price = 1 / 30, VirtualLevel.Amount = 200,
       Route = [''ETH'', ''USDT'', ''KNC''], LevelPrices = [1, 1 / 30]\<rparr>,
      \<lparr>VirtualLevel.Price = (14 / 10) / 30, VirtualLevel.Amount = 100,
       Route = [''ETH'', ''USDT'', ''KNC''], LevelPrices = [14 / 10, 1 / 30]\<rparr>,
      \<lparr>VirtualLevel.Price = (14 / 10) / 20, VirtualLevel.Amount = 300,
       Route = [''ETH'', ''USDT'', ''KNC''], LevelPrices = [14 / 10, 1 / 20]\<rparr>] \<and>
   findBestRouteFromVirtualOrderbook
     (VirtualTradingPair.AskOrders
        (buildVirtualOrderbook insertionSort insertionSort storedOrder (buildGraph scenario1)
           ''KNC'' ''ETH'')) 300
   = (Num (34 / 900),
      [\<lparr>VirtualLevel.Price = 1 / 30, VirtualLevel.Amount = 200,
        Route = [''ETH'', ''USDT'', ''KNC''], LevelPrices = [1, 1 / 30]\<rparr>,
       \<lparr>VirtualLevel.Price = (14 / 10) / 30, VirtualLevel.Amount = 100,
        Route = [''ETH'', ''USDT'', ''KNC''], LevelPrices = [14 / 10, 1 / 30]\<rparr>])"
proof -
  have c1: "sortSliceContract (insertionSort ::
     (RouteCandidate \<Rightarrow> RouteCandidate \<Rightarrow> bool) \<Rightarrow> RouteCandidate list \<Rightarrow> RouteCandidate list)"
    by (rule insertionSort_contract)
  have c2: "sortSliceContract (insertionSort ::
     (VirtualLevel \<Rightarrow> VirtualLevel \<Rightarrow> bool) \<Rightarrow> VirtualLevel list \<Rightarrow> VirtualLevel list)"
    by (rule insertionSort_contract)
  have c3: "rangeOrderContract storedOrder"
    by (rule storedOrder_contract)
  show ?thesis
    using c1 c2 c3 scenario1_book_and_execution [OF c1 c2 c3] by blast
qed


end
